theory Spec2Isabelle
  imports Main "HOL-Library.Sublist"
begin

section \<open>The terraform generate command of the Auth0 CLI\<close>

text \<open>
  A shallow embedding of \<^verbatim>\<open>internal/cli/terraform.go\<close>: the aggregation of import
  data (\<^verbatim>\<open>fetchImportData\<close>), the generation of the two Terraform files
  (\<^verbatim>\<open>generateTerraformConfigFiles\<close>, \<^verbatim>\<open>createMainFile\<close>,
  \<^verbatim>\<open>createImportFile\<close>) and the command body (\<^verbatim>\<open>generateTerraformCmdRun\<close>).
  Go strings are byte strings, here \<^typ>\<open>string\<close>. A Go function returning
  \<^verbatim>\<open>error\<close> and acting on the file system is a function from the file system to
  an \<^typ>\<open>'e option\<close> (\<^term>\<open>None\<close> is \<^verbatim>\<open>nil\<close>) and the file system after the call.
\<close>

subsection \<open>Errors\<close>

text \<open>
  The error numbers the operating system can answer with, and the error values of the
  program: \<^verbatim>\<open>errors.New\<close> gives an \<open>ErrorString\<close>, the \<^verbatim>\<open>os\<close> package a
  \<open>PathError\<close> (operation, path, error number), \<^verbatim>\<open>text/template\<close> a
  \<open>ParseError\<close> or an \<open>ExecError\<close>, and the management API client (behind a fetcher)
  an \<open>APIError\<close> (status code and message).
\<close>

datatype errno = EEXIST | ENOTEMPTY | ENOENT | ENOTDIR | EISDIR | EACCES | ENOSPC | EIO | EBADF

datatype error =
    ErrorString string
  | PathError string string errno
  | ParseError string
  | ExecError string
  | APIError nat string

definition errors_New :: "string \<Rightarrow> error" where
  "errors_New msg = ErrorString msg"

text \<open>
  \<^verbatim>\<open>os.IsExist\<close> unwraps a \<^verbatim>\<open>PathError\<close> and answers true for the error numbers
  \<^verbatim>\<open>EEXIST\<close> and \<^verbatim>\<open>ENOTEMPTY\<close>; it is false of every other error.
\<close>

fun os_IsExist :: "error \<Rightarrow> bool" where
  "os_IsExist (PathError opn p e) = (e = EEXIST \<or> e = ENOTEMPTY)"
| "os_IsExist (ErrorString s) = False"
| "os_IsExist (ParseError s) = False"
| "os_IsExist (ExecError s) = False"
| "os_IsExist (APIError c s) = False"

subsection \<open>Import data and fetchers\<close>

text \<open>
  Modelled from the spec: the declarations of \<^verbatim>\<open>importDataItem\<close>,
  \<^verbatim>\<open>importDataList\<close> and \<^verbatim>\<open>resourceDataFetcher\<close> are not in the given source
  file. The spec's ImportRecord has the two string attributes \<open>ImportID\<close> and
  \<open>ResourceName\<close> (the names the template of \<^verbatim>\<open>createImportFile\<close> reads), an
  ImportDataList is an ordered sequence of them, and a fetcher has the one method
  \<^verbatim>\<open>FetchData(ctx) (importDataList, error)\<close>. A fetcher is read-only, so it is the
  function from the context to the pair it returns.
\<close>

record importDataItem =
  ResourceName :: string
  ImportID :: string

type_synonym importDataList = "importDataItem list"

type_synonym 'ctx resourceDataFetcher = "'ctx \<Rightarrow> importDataList \<times> error option"

definition FetchData :: "'ctx resourceDataFetcher \<Rightarrow> 'ctx \<Rightarrow> importDataList \<times> error option" where
  "FetchData fetcher ctx = fetcher ctx"

text \<open>
  \<^verbatim>\<open>fetchImportData\<close>: the loop over the fetchers, with the list built so far as its
  state. A fetcher's error returns \<^verbatim>\<open>nil, err\<close>; the nil slice is the empty list.
\<close>

fun fetchImportData_loop ::
  "'ctx \<Rightarrow> importDataList \<Rightarrow> 'ctx resourceDataFetcher list \<Rightarrow> importDataList \<times> error option" where
  "fetchImportData_loop ctx importData [] = (importData, None)"
| "fetchImportData_loop ctx importData (fetcher # fetchers) =
     (case FetchData fetcher ctx of
        (data, Some err) \<Rightarrow> ([], Some err)
      | (data, None) \<Rightarrow> fetchImportData_loop ctx (importData @ data) fetchers)"

definition fetchImportData ::
  "'ctx \<Rightarrow> 'ctx resourceDataFetcher list \<Rightarrow> importDataList \<times> error option" where
  "fetchImportData ctx fetchers = fetchImportData_loop ctx [] fetchers"

subsection \<open>Slash-separated paths: \<^verbatim>\<open>path.Clean\<close> and \<^verbatim>\<open>path.Join\<close>\<close>

text \<open>
  The standard library's \<^verbatim>\<open>path.Clean\<close>, on the elements between slashes: empty
  elements and \<open>.\<close> are dropped, \<open>..\<close> removes the element before it (at the root it
  is dropped, at the start of a relative path it is kept), and the empty result is
  \<open>.\<close>. \<open>splitOn\<close> cuts a string at a separator (\<open>splitAcc\<close> with the characters
  of the current element in reverse); \<open>cleanElems\<close> keeps the elements kept so far
  in reverse.
\<close>

fun splitAcc :: "char \<Rightarrow> string \<Rightarrow> string \<Rightarrow> string list" where
  "splitAcc sep acc [] = [rev acc]"
| "splitAcc sep acc (c # cs) =
     (if c = sep then rev acc # splitAcc sep [] cs else splitAcc sep (c # acc) cs)"

definition splitOn :: "char \<Rightarrow> string \<Rightarrow> string list" where
  "splitOn sep s = splitAcc sep [] s"

fun joinSlash :: "string list \<Rightarrow> string" where
  "joinSlash [] = []"
| "joinSlash [e] = e"
| "joinSlash (e # f # es) = e @ ''/'' @ joinSlash (f # es)"

fun cleanElems :: "bool \<Rightarrow> string list \<Rightarrow> string list \<Rightarrow> string list" where
  "cleanElems rooted [] out = rev out"
| "cleanElems rooted (e # es) out =
     (if e = [] \<or> e = ''.'' then cleanElems rooted es out
      else if e = ''..'' then
        (case out of
           [] \<Rightarrow> if rooted then cleanElems rooted es [] else cleanElems rooted es [''..'']
         | t # ts \<Rightarrow> if t = ''..'' then cleanElems rooted es (''..'' # t # ts)
                     else cleanElems rooted es ts)
      else cleanElems rooted es (e # out))"

definition isRooted :: "string \<Rightarrow> bool" where
  "isRooted p = (case p of [] \<Rightarrow> False | c # cs \<Rightarrow> c = CHR ''/'')"

definition renderPath :: "bool \<Rightarrow> string list \<Rightarrow> string" where
  "renderPath rooted es =
     (if rooted then ''/'' @ joinSlash es else if es = [] then ''.'' else joinSlash es)"

definition cleanedElems :: "string \<Rightarrow> string list" where
  "cleanedElems p = cleanElems (isRooted p) (splitOn (CHR ''/'') p) []"

definition path_Clean :: "string \<Rightarrow> string" where
  "path_Clean p = renderPath (isRooted p) (cleanedElems p)"

text \<open>
  \<^verbatim>\<open>path.Join\<close> ignores the empty elements in front, joins the rest with slashes and
  cleans the result; with nothing but empty elements it is the empty string.
\<close>

definition path_Join :: "string list \<Rightarrow> string" where
  "path_Join elem =
     (case dropWhile (\<lambda>e. e = []) elem of
        [] \<Rightarrow> []
      | e # es \<Rightarrow> path_Clean (joinSlash (e # es)))"

subsection \<open>The file system\<close>

text \<open>
  The state the generator acts on: the directories with their permission bits, the
  files with their contents, and the failures the operating system answers with. The
  failures are part of the state so that every outcome of a call is a branch of the
  model: \<open>mkdir_fault\<close> and \<open>create_fault\<close> by the name given to the call,
  \<open>write_fault\<close> by the name and the offset the write starts at. A failed call
  leaves the state as it was; a failed write writes nothing.
\<close>

type_synonym FileMode = nat

record filesystem =
  dirs :: "string \<rightharpoonup> FileMode"
  files :: "string \<rightharpoonup> string"
  mkdir_fault :: "string \<rightharpoonup> errno"
  create_fault :: "string \<rightharpoonup> errno"
  write_fault :: "string \<Rightarrow> nat \<rightharpoonup> errno"

text \<open>
  \<^verbatim>\<open>os.MkdirAll\<close>: nothing to do and no error when the path is a directory already;
  the empty path is \<^verbatim>\<open>ENOENT\<close>; else the directory and every missing parent
  (\<open>dirChain\<close>: the cleaned path and its prefixes, from the root or the working
  directory down) are created with the permission bits given, and the directories
  that exist keep theirs.
\<close>

definition dirChain :: "string \<Rightarrow> string list" where
  "dirChain p = map (renderPath (isRooted p)) (prefixes (cleanedElems p))"

definition os_MkdirAll :: "string \<Rightarrow> FileMode \<Rightarrow> filesystem \<Rightarrow> error option \<times> filesystem" where
  "os_MkdirAll p perm fs =
     (if p = [] then (Some (PathError ''mkdir'' p ENOENT), fs)
      else if dirs fs (path_Clean p) \<noteq> None then (None, fs)
      else (case mkdir_fault fs p of
              Some e \<Rightarrow> (Some (PathError ''mkdir'' p e), fs)
            | None \<Rightarrow>
                (None, fs\<lparr>dirs := (\<lambda>q. if q \<in> set (dirChain p) \<and> dirs fs q = None
                                        then Some perm else dirs fs q)\<rparr>)))"

text \<open>
  \<open>putFile\<close> sets the content of one file and leaves the rest of the state.
  \<^verbatim>\<open>os.Create\<close> creates the file or truncates it; the handle it returns is the
  name. \<^verbatim>\<open>File.WriteString\<close> and \<^verbatim>\<open>File.Write\<close> append at the end of what the
  handle has written. \<^verbatim>\<open>File.Close\<close> is deferred and its result dropped by the
  source; it changes nothing here.
\<close>

definition putFile :: "string \<Rightarrow> string \<Rightarrow> filesystem \<Rightarrow> filesystem" where
  "putFile name content fs = fs\<lparr>files := (files fs)(name \<mapsto> content)\<rparr>"

definition os_Create :: "string \<Rightarrow> filesystem \<Rightarrow> error option \<times> filesystem" where
  "os_Create name fs =
     (case create_fault fs name of
        Some e \<Rightarrow> (Some (PathError ''open'' name e), fs)
      | None \<Rightarrow> (None, putFile name [] fs))"

definition file_WriteString :: "string \<Rightarrow> string \<Rightarrow> filesystem \<Rightarrow> error option \<times> filesystem" where
  "file_WriteString name s fs =
     (case files fs name of
        None \<Rightarrow> (Some (PathError ''write'' name EBADF), fs)
      | Some written \<Rightarrow>
          (case write_fault fs name (length written) of
             Some e \<Rightarrow> (Some (PathError ''write'' name e), fs)
           | None \<Rightarrow> (None, putFile name (written @ s) fs)))"

subsection \<open>The subset of \<^verbatim>\<open>text/template\<close> the import file uses\<close>

text \<open>
  Text, the field action \<^verbatim>\<open>{{ .Name }}\<close>, and \<^verbatim>\<open>{{range .}}\<close> ... \<^verbatim>\<open>{{end}}\<close>.
  The lexer cuts the template at the delimiters; \<open>lexText\<close> and \<open>lexInside\<close> keep the
  characters of the current item in reverse. Any other action is a parse error.
\<close>

datatype item = ItemText string | ItemRange | ItemEnd | ItemField string | ItemError string

datatype node = TextNode string | FieldNode string | RangeNode "node list"

definition lexAction :: "string \<Rightarrow> item" where
  "lexAction body =
     (let ws = filter (\<lambda>w. w \<noteq> []) (splitOn (CHR '' '') body) in
      if ws = [''range'', ''.''] then ItemRange
      else if ws = [''end''] then ItemEnd
      else (case ws of
              [w] \<Rightarrow> if 2 \<le> length w \<and> hd w = CHR ''.'' \<and> CHR ''.'' \<notin> set (tl w)
                     then ItemField (tl w) else ItemError body
            | _ \<Rightarrow> ItemError body))"

definition emitText :: "string \<Rightarrow> item list \<Rightarrow> item list" where
  "emitText acc items = (if acc = [] then items else ItemText (rev acc) # items)"

fun lexText :: "string \<Rightarrow> string \<Rightarrow> item list"
  and lexInside :: "string \<Rightarrow> string \<Rightarrow> item list" where
  "lexText acc [] = emitText acc []"
| "lexText acc [c] = emitText (c # acc) []"
| "lexText acc (c # d # cs) =
     (if c = CHR ''{'' \<and> d = CHR ''{'' then emitText acc (lexInside [] cs)
      else lexText (c # acc) (d # cs))"
| "lexInside acc [] = [ItemError ''unclosed action'']"
| "lexInside acc [c] = [ItemError ''unclosed action'']"
| "lexInside acc (c # d # cs) =
     (if c = CHR ''}'' \<and> d = CHR ''}'' then lexAction (rev acc) # lexText [] cs
      else lexInside (c # acc) (d # cs))"

text \<open>
  The parser: the nodes of the list being read in reverse, and below them the lists
  that enclose it, one for every open \<^verbatim>\<open>range\<close>.
\<close>

fun parseItems :: "item list \<Rightarrow> node list \<Rightarrow> node list list \<Rightarrow> error + node list" where
  "parseItems [] cur [] = Inr (rev cur)"
| "parseItems [] cur (up # stack) = Inl (ParseError ''unexpected EOF'')"
| "parseItems (ItemText s # items) cur stack = parseItems items (TextNode s # cur) stack"
| "parseItems (ItemField f # items) cur stack = parseItems items (FieldNode f # cur) stack"
| "parseItems (ItemRange # items) cur stack = parseItems items [] (cur # stack)"
| "parseItems (ItemEnd # items) cur [] = Inl (ParseError ''unexpected {{end}}'')"
| "parseItems (ItemEnd # items) cur (up # stack) =
     parseItems items (RangeNode (rev cur) # up) stack"
| "parseItems (ItemError s # items) cur stack = Inl (ParseError s)"

definition template_Parse :: "string \<Rightarrow> error + node list" where
  "template_Parse src = parseItems (lexText [] src) [] []"

text \<open>
  Execution reads the data by reflection: a value is a string, a struct (its fields
  by name) or a slice. A field action prints a string field of the dot; a range runs
  its body once for every element of the slice, the element being the dot. The result
  is the sequence of writes made before the first error, and that error.
\<close>

datatype val = StringVal string | StructVal "(string \<times> val) list" | SliceVal "val list"

fun evalField :: "val \<Rightarrow> string \<Rightarrow> error + string" where
  "evalField (StructVal flds) name =
     (case map_of flds name of
        Some (StringVal s) \<Rightarrow> Inr s
      | Some v \<Rightarrow> Inl (ExecError name)
      | None \<Rightarrow> Inl (ExecError name))"
| "evalField (StringVal s) name = Inl (ExecError name)"
| "evalField (SliceVal vs) name = Inl (ExecError name)"

fun walk :: "val \<Rightarrow> node \<Rightarrow> string list \<times> error option"
  and walkNodes :: "val \<Rightarrow> node list \<Rightarrow> string list \<times> error option"
  and walkRange :: "node list \<Rightarrow> val list \<Rightarrow> string list \<times> error option" where
  "walk dot (TextNode s) = ([s], None)"
| "walk dot (FieldNode name) =
     (case evalField dot name of Inl e \<Rightarrow> ([], Some e) | Inr s \<Rightarrow> ([s], None))"
| "walk dot (RangeNode body) =
     (case dot of
        SliceVal vs \<Rightarrow> walkRange body vs
      | _ \<Rightarrow> ([], Some (ExecError ''range'')))"
| "walkNodes dot [] = ([], None)"
| "walkNodes dot (n # ns) =
     (case walk dot n of
        (out, Some e) \<Rightarrow> (out, Some e)
      | (out, None) \<Rightarrow> (case walkNodes dot ns of (out', r) \<Rightarrow> (out @ out', r)))"
| "walkRange body [] = ([], None)"
| "walkRange body (v # vs) =
     (case walkNodes v body of
        (out, Some e) \<Rightarrow> (out, Some e)
      | (out, None) \<Rightarrow> (case walkRange body vs of (out', r) \<Rightarrow> (out @ out', r)))"

fun writeAll :: "string \<Rightarrow> string list \<Rightarrow> filesystem \<Rightarrow> error option \<times> filesystem" where
  "writeAll name [] fs = (None, fs)"
| "writeAll name (s # ss) fs =
     (case file_WriteString name s fs of
        (Some e, fs') \<Rightarrow> (Some e, fs')
      | (None, fs') \<Rightarrow> writeAll name ss fs')"

text \<open>
  \<^verbatim>\<open>Template.Execute\<close> hands a failed write back as the writer's own error.
\<close>

definition template_Execute ::
  "node list \<Rightarrow> string \<Rightarrow> val \<Rightarrow> filesystem \<Rightarrow> error option \<times> filesystem" where
  "template_Execute t name data fs =
     (case walkNodes data t of
        (out, r) \<Rightarrow>
          (case writeAll name out fs of
             (Some e, fs') \<Rightarrow> (Some e, fs')
           | (None, fs') \<Rightarrow> (r, fs')))"

definition itemVal :: "importDataItem \<Rightarrow> val" where
  "itemVal r = StructVal [(''ResourceName'', StringVal (ResourceName r)),
                          (''ImportID'', StringVal (ImportID r))]"

definition dataVal :: "importDataList \<Rightarrow> val" where
  "dataVal data = SliceVal (map itemVal data)"

subsection \<open>The generator\<close>

definition mainFileContent :: string where
  \<open>mainFileContent =
''terraform {\<newline>  required_version = "~> 1.5.0"\<newline>  required_providers {\<newline>    auth0 = {\<newline>      source  = "auth0/auth0"\<newline>      version = "1.0.0-beta.1"\<newline>    }\<newline>  }\<newline>}\<newline>\<newline>provider "auth0" {\<newline>  debug = true\<newline>}\<newline>''\<close>

definition createMainFile :: "string \<Rightarrow> filesystem \<Rightarrow> error option \<times> filesystem" where
  "createMainFile outputDIR fs =
     (let filePath = path_Join [outputDIR, ''main.tf''] in
      case os_Create filePath fs of
        (Some err, fs') \<Rightarrow> (Some err, fs')
      | (None, fs') \<Rightarrow> file_WriteString filePath mainFileContent fs')"

definition importFileContent :: string where
  \<open>importFileContent =
''# This file is automatically generated via the Auth0 CLI.\<newline># It can be safely removed after the successful generation\<newline># of Terraform resource definition files.\<newline>{{range .}}\<newline>import {\<newline>  id = "{{ .ImportID }}"\<newline>  to = {{ .ResourceName }}\<newline>}\<newline>{{end}}\<newline>''\<close>

definition createImportFile ::
  "string \<Rightarrow> importDataList \<Rightarrow> filesystem \<Rightarrow> error option \<times> filesystem" where
  "createImportFile outputDIR data fs =
     (let filePath = path_Join [outputDIR, ''auth0_import.tf''] in
      case os_Create filePath fs of
        (Some err, fs') \<Rightarrow> (Some err, fs')
      | (None, fs') \<Rightarrow>
          (case template_Parse importFileContent of
             Inl err \<Rightarrow> (Some err, fs')
           | Inr t \<Rightarrow> template_Execute t filePath (dataVal data) fs'))"

text \<open>The permission constant of the source is the octal 0755.\<close>

definition readWritePermission :: FileMode where
  "readWritePermission = 7 * 8 * 8 + 5 * 8 + 5"

definition generateTerraformConfigFiles ::
  "string \<Rightarrow> importDataList \<Rightarrow> filesystem \<Rightarrow> error option \<times> filesystem" where
  "generateTerraformConfigFiles outputDIR data fs =
     (if length data = 0 then (Some (errors_New ''no import data available''), fs)
      else
        (case os_MkdirAll outputDIR readWritePermission fs of
           (mkErr, fs1) \<Rightarrow>
             (if mkErr \<noteq> None \<and> \<not> os_IsExist (the mkErr) then (mkErr, fs1)
              else
                (case createMainFile outputDIR fs1 of
                   (Some err, fs2) \<Rightarrow> (Some err, fs2)
                 | (None, fs2) \<Rightarrow> createImportFile outputDIR data fs2))))"

subsection \<open>The command\<close>

text \<open>
  The command holds the API client and the renderer; \<^verbatim>\<open>Infof\<close> adds a message to
  what the renderer has shown.
\<close>

record 'api cli =
  api :: 'api
  renderer :: "string list"

record terraformInputs =
  OutputDIR :: string

definition renderer_Infof :: "string \<Rightarrow> 'api cli \<Rightarrow> 'api cli" where
  "renderer_Infof msg c = c\<lparr>renderer := renderer c @ [msg]\<rparr>"

text \<open>
  Modelled from the spec: \<^verbatim>\<open>clientResourceFetcher\<close> is not in the given source
  file. It is the one fetcher wired in, for client applications, and reads the tenant
  through the API client; here it is a parameter, from the API client to the fetcher,
  of the functions that build and run the fetcher list.
\<close>

definition parseResourceFetchers ::
  "('api \<Rightarrow> 'ctx resourceDataFetcher) \<Rightarrow> terraformInputs \<Rightarrow> 'api \<Rightarrow> 'ctx resourceDataFetcher list" where
  "parseResourceFetchers clientResourceFetcher i a = [clientResourceFetcher a]"

definition successMessage :: string where
  "successMessage = ''Terraform config files generated successfully.''"

definition quickstartMessage :: string where
  "quickstartMessage =
     ''Follow this '' @
     ''[quickstart](https://registry.terraform.io/providers/auth0/auth0/latest/docs/guides/quickstart) '' @
     ''to go through setting up an Auth0 application for the provider to authenticate against and manage '' @
     ''resources.''"

definition generateTerraformCmdRun ::
  "('api \<Rightarrow> 'ctx resourceDataFetcher) \<Rightarrow> 'api cli \<Rightarrow> terraformInputs \<Rightarrow> 'ctx \<Rightarrow> filesystem
     \<Rightarrow> error option \<times> 'api cli \<times> filesystem" where
  "generateTerraformCmdRun clientResourceFetcher c inputs ctx fs =
     (case fetchImportData ctx (parseResourceFetchers clientResourceFetcher inputs (api c)) of
        (data, Some err) \<Rightarrow> (Some err, c, fs)
      | (data, None) \<Rightarrow>
          (case generateTerraformConfigFiles (OutputDIR inputs) data fs of
             (Some err, fs') \<Rightarrow> (Some err, c, fs')
           | (None, fs') \<Rightarrow>
               (None, renderer_Infof quickstartMessage (renderer_Infof successMessage c), fs')))"

subsection \<open>The expected format, and example inputs\<close>

text \<open>
  The parse tree of the template of \<^verbatim>\<open>createImportFile\<close> (lemma
  \<open>parse_importFileContent\<close> below), and the format the spec gives for the import
  file, to compare with what the template writes: the header comment of three lines,
  and for every record the block of four lines with the ImportID in quotes and the
  ResourceName bare. \<open>expectedImportFile\<close> is the header, then every block with
  an empty line before it, then one more newline.
\<close>

definition importTemplate :: "node list" where
  \<open>importTemplate =
    [TextNode ''# This file is automatically generated via the Auth0 CLI.\<newline># It can be safely removed after the successful generation\<newline># of Terraform resource definition files.\<newline>'',
     RangeNode
       [TextNode ''\<newline>import {\<newline>  id = "'',
        FieldNode ''ImportID'',
        TextNode ''"\<newline>  to = '',
        FieldNode ''ResourceName'',
        TextNode ''\<newline>}\<newline>''],
     TextNode ''\<newline>'']\<close>

definition expectedHeader :: string where
  \<open>expectedHeader =
''# This file is automatically generated via the Auth0 CLI.\<newline># It can be safely removed after the successful generation\<newline># of Terraform resource definition files.\<newline>''\<close>

definition expectedBlock :: "importDataItem \<Rightarrow> string" where
  \<open>expectedBlock r =
     ''import {\<newline>  id = "'' @ ImportID r @ ''"\<newline>  to = '' @ ResourceName r @ ''\<newline>}\<newline>''\<close>

definition expectedImportFile :: "importDataList \<Rightarrow> string" where
  "expectedImportFile data =
     expectedHeader @ concat (map (\<lambda>r. ''\<newline>'' @ expectedBlock r) data) @ ''\<newline>''"

text \<open>
  A file name that \<^verbatim>\<open>path.Clean\<close> keeps as one element: not empty, no slash, not
  \<open>.\<close> and not \<open>..\<close>.
\<close>

definition simpleName :: "string \<Rightarrow> bool" where
  "simpleName n = (n \<noteq> [] \<and> CHR ''/'' \<notin> set n \<and> n \<noteq> ''.'' \<and> n \<noteq> ''..'')"

text \<open>
  Example inputs: the record of the spec's scenario and a second one, the block the
  scenario shows (its last line without a newline), a disk with nothing but the
  working directory and no failure, the same disk with the directory \<open>out\<close> there
  already (mode 0700), the empty disk with a failure of \<^verbatim>\<open>MkdirAll\<close> for
  \<open>out\<close>, the disk with \<open>out\<close> and a failure of \<^verbatim>\<open>Create\<close> for one name or
  of the write at one offset of one file, the command with nothing shown yet, and three
  fetchers (one record, no record, and a failure of the API that comes with a
  record).
\<close>

definition scenarioItem :: importDataItem where
  "scenarioItem = \<lparr>ResourceName = ''auth0_client.my_app'', ImportID = ''auth0|123''\<rparr>"

definition otherItem :: importDataItem where
  "otherItem = \<lparr>ResourceName = ''auth0_client.api'', ImportID = ''xYz''\<rparr>"


definition emptyDisk :: filesystem where
  "emptyDisk = \<lparr>dirs = [''.'' \<mapsto> readWritePermission], files = Map.empty,
     mkdir_fault = Map.empty, create_fault = Map.empty, write_fault = (\<lambda>name. Map.empty)\<rparr>"

definition diskWithOut :: filesystem where
  "diskWithOut = emptyDisk\<lparr>dirs := (dirs emptyDisk)(''out'' \<mapsto> 7 * 8 * 8)\<rparr>"


definition diskCreateFault :: "string \<Rightarrow> errno \<Rightarrow> filesystem" where
  "diskCreateFault name e = diskWithOut\<lparr>create_fault := [name \<mapsto> e]\<rparr>"

definition diskWriteFault :: "string \<Rightarrow> nat \<Rightarrow> errno \<Rightarrow> filesystem" where
  "diskWriteFault name k e =
     diskWithOut\<lparr>write_fault := (\<lambda>n. if n = name then [k \<mapsto> e] else Map.empty)\<rparr>"

definition exampleCli :: "unit cli" where
  "exampleCli = \<lparr>api = (), renderer = []\<rparr>"

definition exampleInputs :: terraformInputs where
  "exampleInputs = \<lparr>OutputDIR = ''out''\<rparr>"

definition fetchOne :: "unit resourceDataFetcher" where
  "fetchOne ctx = ([scenarioItem], None)"

definition fetchNothing :: "unit resourceDataFetcher" where
  "fetchNothing ctx = ([], None)"

definition fetchFailing :: "unit resourceDataFetcher" where
  "fetchFailing ctx = ([otherItem], Some (APIError 429 ''Too Many Requests''))"

section \<open>Lemmas\<close>

lemma fetch_loop_ok:
  "\<forall>f\<in>set fetchers. snd (FetchData f ctx) = None \<Longrightarrow>
   fetchImportData_loop ctx acc fetchers = (acc @ concat (map (\<lambda>f. fst (FetchData f ctx)) fetchers), None)"
  by (induction fetchers arbitrary: acc) (auto split: prod.splits option.splits)

lemma fetch_loop_err:
  "\<forall>g\<in>set pre. snd (FetchData g ctx) = None \<Longrightarrow> snd (FetchData f ctx) = Some e \<Longrightarrow>
   fetchImportData_loop ctx acc (pre @ f # post) = ([], Some e)"
  by (induction pre arbitrary: acc) (auto split: prod.splits option.splits)

lemma splitAcc_append:
  "splitAcc sep acc (a @ sep # b) = splitAcc sep acc a @ splitAcc sep [] b"
  by (induction a arbitrary: acc) auto

lemma splitAcc_simple: "sep \<notin> set n \<Longrightarrow> splitAcc sep acc n = [rev acc @ n]"
  by (induction n arbitrary: acc) auto

lemma splitOn_append: "splitOn sep (a @ sep # b) = splitOn sep a @ splitOn sep b"
  by (simp add: splitOn_def splitAcc_append)

lemma splitOn_simple: "sep \<notin> set n \<Longrightarrow> splitOn sep n = [n]"
  by (simp add: splitOn_def splitAcc_simple)

lemma cleanElems_append:
  "cleanElems r (xs @ ys) out = cleanElems r ys (rev (cleanElems r xs out))"
  by (induction xs arbitrary: out) (auto split: list.splits)

lemma joinSlash_snoc:
  "joinSlash (es @ [n]) = (if es = [] then n else joinSlash es @ ''/'' @ n)"
  by (induction es rule: joinSlash.induct) auto


lemma path_Join_file:
  assumes "simpleName n"
  shows "path_Join [d, n] = renderPath (isRooted d) (cleanedElems d @ [n])"
proof (cases "d = []")
  case True
  from assms have "isRooted n = False"
    by (cases n) (auto simp: isRooted_def simpleName_def)
  with assms True show ?thesis
    by (simp add: path_Join_def path_Clean_def cleanedElems_def splitOn_simple simpleName_def isRooted_def)
next
  case False
  then have r: "isRooted (d @ ''/'' @ n) = isRooted d"
    by (cases d) (auto simp: isRooted_def)
  from assms have s: "splitOn (CHR ''/'') (d @ ''/'' @ n) = splitOn (CHR ''/'') d @ [n]"
    by (simp add: splitOn_append splitOn_simple simpleName_def)
  from assms have c: "cleanElems (isRooted d) [n] out = rev out @ [n]" for out
    by (simp add: simpleName_def)
  from False have "path_Join [d, n] = path_Clean (d @ ''/'' @ n)"
    by (simp add: path_Join_def)
  also have "\<dots> = renderPath (isRooted d) (cleanElems (isRooted d) (splitOn (CHR ''/'') d @ [n]) [])"
    unfolding path_Clean_def cleanedElems_def r s ..
  also have "cleanElems (isRooted d) (splitOn (CHR ''/'') d @ [n]) [] = cleanedElems d @ [n]"
    unfolding cleanElems_append c by (simp add: cleanedElems_def)
  finally show ?thesis .
qed



lemma parse_importFileContent: "template_Parse importFileContent = Inr importTemplate"
  by (simp add: template_Parse_def importFileContent_def importTemplate_def lexAction_def emitText_def splitOn_def)

lemma files_putFile [simp]: "files (putFile p w fs) = (files fs)(p \<mapsto> w)"
  and dirs_putFile [simp]: "dirs (putFile p w fs) = dirs fs"
  and mkdir_fault_putFile [simp]: "mkdir_fault (putFile p w fs) = mkdir_fault fs"
  and create_fault_putFile [simp]: "create_fault (putFile p w fs) = create_fault fs"
  and write_fault_putFile [simp]: "write_fault (putFile p w fs) = write_fault fs"
  by (simp_all add: putFile_def)

lemma putFile_putFile [simp]: "putFile p w (putFile p v fs) = putFile p w fs"
  by (simp add: putFile_def)

lemma putFile_same: "files fs p = Some w \<Longrightarrow> putFile p w fs = fs"
  by (simp add: putFile_def map_upd_triv)

lemma os_Create_ok: "os_Create p fs = (None, fs') \<Longrightarrow> fs' = putFile p [] fs"
  by (auto simp: os_Create_def split: option.splits)

lemma os_Create_err:
  "os_Create p fs = (Some e, fs') \<Longrightarrow> fs' = fs \<and> (\<exists>n. create_fault fs p = Some n \<and> e = PathError ''open'' p n)"
  by (auto simp: os_Create_def split: option.splits)

lemma WriteString_ok:
  "file_WriteString p s fs = (None, fs') \<Longrightarrow>
   \<exists>w. files fs p = Some w \<and> fs' = putFile p (w @ s) fs"
  by (auto simp: file_WriteString_def split: option.splits)

lemma WriteString_err:
  "file_WriteString p s fs = (Some e, fs') \<Longrightarrow> fs' = fs \<and> (\<exists>n. e = PathError ''write'' p n)"
  by (auto simp: file_WriteString_def split: option.splits)


lemma writeAll_err:
  "writeAll p ss fs = (Some e, fs') \<Longrightarrow> files fs p = Some w \<Longrightarrow>
   (\<exists>w'. fs' = putFile p w' fs) \<and> (\<exists>n. e = PathError ''write'' p n)"
proof (induction ss arbitrary: fs w)
  case Nil
  then show ?case by simp
next
  case (Cons s ss)
  show ?case
  proof (cases "file_WriteString p s fs")
    case (Pair r fs1)
    show ?thesis
    proof (cases r)
      case None
      with Pair Cons.prems have 2: "writeAll p ss fs1 = (Some e, fs')" by simp
      from WriteString_ok[OF Pair[unfolded None]] Cons.prems(2)
      have 3: "fs1 = putFile p (w @ s) fs" by auto
      then have "files fs1 p = Some (w @ s)" by simp
      from Cons.IH[OF 2 this] 3 show ?thesis by auto
    next
      case (Some e')
      with Pair Cons.prems have "e' = e" "fs1 = fs'" by auto
      with WriteString_err[OF Pair[unfolded Some]] Cons.prems(2) show ?thesis
        by (auto intro: exI[of _ w] simp: putFile_same)
    qed
  qed
qed




lemma walkRange_items:
  "walkRange [TextNode a, FieldNode ''ImportID'', TextNode b, FieldNode ''ResourceName'', TextNode c]
     (map itemVal data) = (concat (map (\<lambda>r. [a, ImportID r, b, ResourceName r, c]) data), None)"
  by (induction data) (simp_all add: itemVal_def)

lemma concat_chunks:
  "concat (concat (map (\<lambda>r. [a, f r, b, g r, c]) data)) = concat (map (\<lambda>r. a @ f r @ b @ g r @ c) data)"
  by (induction data) simp_all

lemma walk_importTemplate:
  "\<exists>out. walkNodes (dataVal data) importTemplate = (out, None) \<and> concat out = expectedImportFile data"
  by (simp add: importTemplate_def dataVal_def walkRange_items concat_chunks expectedImportFile_def expectedHeader_def expectedBlock_def)


lemma createMainFile_ok:
  assumes "createMainFile d fs = (None, fs')"
  shows "fs' = putFile (path_Join [d, ''main.tf'']) mainFileContent fs"
proof -
  let ?p = "path_Join [d, ''main.tf'']"
  from assms obtain fs1 where 1: "os_Create ?p fs = (None, fs1)"
    and 2: "file_WriteString ?p mainFileContent fs1 = (None, fs')"
    by (auto simp: createMainFile_def Let_def split: prod.splits option.splits)
  from os_Create_ok[OF 1] WriteString_ok[OF 2] show ?thesis by auto
qed



lemma template_Execute_import_err:
  assumes "template_Execute importTemplate p (dataVal data) fs = (Some e, fs')" and "files fs p = Some []"
  shows "(\<exists>w. fs' = putFile p w fs) \<and> (\<exists>n. e = PathError ''write'' p n)"
proof -
  from walk_importTemplate obtain out where
    w: "walkNodes (dataVal data) importTemplate = (out, None)"
    by blast
  from assms(1) w have "writeAll p out fs = (Some e, fs')"
    by (auto simp: template_Execute_def split: prod.splits option.splits)
  from writeAll_err[OF this assms(2)] show ?thesis .
qed



lemma simpleName_main: "simpleName ''main.tf''" and simpleName_import: "simpleName ''auth0_import.tf''"
  by (simp_all add: simpleName_def)

lemma renderPath_snoc:
  "renderPath r (es @ [n]) = (if r then ''/'' else []) @ (if es = [] then [] else joinSlash es @ ''/'') @ n"
  by (simp add: renderPath_def joinSlash_snoc)

lemma paths_distinct: "path_Join [d, ''main.tf''] \<noteq> path_Join [d, ''auth0_import.tf'']"
  by (simp add: path_Join_file simpleName_main simpleName_import renderPath_snoc)

lemma os_MkdirAll_frame:
  "os_MkdirAll d perm fs = (r, fs1) \<Longrightarrow>
   files fs1 = files fs \<and> create_fault fs1 = create_fault fs \<and> write_fault fs1 = write_fault fs
   \<and> mkdir_fault fs1 = mkdir_fault fs"
  by (auto simp: os_MkdirAll_def split: if_splits option.splits)

lemmas path_eval = path_Join_def path_Clean_def cleanedElems_def isRooted_def renderPath_def splitOn_def

lemma out_import_path: "path_Join [''out'', ''auth0_import.tf''] = ''out/auth0_import.tf''"
  by (simp add: path_eval)

lemma out_main_path: "path_Join [''out'', ''main.tf''] = ''out/main.tf''"
  by (simp add: path_eval)

lemma writeAll_no_fault:
  "\<forall>k. write_fault fs p k = None \<Longrightarrow> files fs p = Some w \<Longrightarrow>
   writeAll p ss fs = (None, putFile p (w @ concat ss) fs)"
proof (induction ss arbitrary: fs w)
  case Nil
  then show ?case by (simp add: putFile_same)
next
  case (Cons s ss)
  from Cons.prems have 1: "file_WriteString p s fs = (None, putFile p (w @ s) fs)"
    by (simp add: file_WriteString_def)
  have 2: "\<forall>k. write_fault (putFile p (w @ s) fs) p k = None" using Cons.prems(1) by simp
  have 3: "files (putFile p (w @ s) fs) p = Some (w @ s)" by simp
  from Cons.IH[OF 2 3] 1 show ?case by simp
qed

lemma createMainFile_no_fault:
  assumes "create_fault fs (path_Join [d, ''main.tf'']) = None"
    and "\<forall>k. write_fault fs (path_Join [d, ''main.tf'']) k = None"
  shows "createMainFile d fs = (None, putFile (path_Join [d, ''main.tf'']) mainFileContent fs)"
  using assms by (simp add: createMainFile_def os_Create_def file_WriteString_def Let_def)

lemma createImportFile_no_fault:
  assumes "create_fault fs (path_Join [d, ''auth0_import.tf'']) = None"
    and "\<forall>k. write_fault fs (path_Join [d, ''auth0_import.tf'']) k = None"
  shows "createImportFile d data fs =
           (None, putFile (path_Join [d, ''auth0_import.tf'']) (expectedImportFile data) fs)"
proof -
  let ?p = "path_Join [d, ''auth0_import.tf'']"
  from walk_importTemplate obtain out where
    w: "walkNodes (dataVal data) importTemplate = (out, None)" and c: "concat out = expectedImportFile data"
    by blast
  have 2: "\<forall>k. write_fault (putFile ?p [] fs) ?p k = None" using assms(2) by simp
  have 3: "files (putFile ?p [] fs) ?p = Some []" by simp
  from writeAll_no_fault[OF 2 3, of out] c
  have "writeAll ?p out (putFile ?p [] fs) = (None, putFile ?p (expectedImportFile data) fs)" by simp
  with w assms(1) show ?thesis
    by (simp add: createImportFile_def os_Create_def Let_def parse_importFileContent template_Execute_def)
qed

lemma emptyDisk_no_fault:
  "create_fault emptyDisk p = None" "write_fault emptyDisk p k = None" "mkdir_fault emptyDisk p = None"
  "files emptyDisk p = None"
  by (simp_all add: emptyDisk_def)

lemma generate_nonempty:
  assumes "data \<noteq> []" and "os_MkdirAll d readWritePermission fs = (r, fs1)"
  shows "generateTerraformConfigFiles d data fs =
    (if r \<noteq> None \<and> \<not> os_IsExist (the r) then (r, fs1)
     else (case createMainFile d fs1 of
             (Some err, fs2) \<Rightarrow> (Some err, fs2)
           | (None, fs2) \<Rightarrow> createImportFile d data fs2))"
  using assms by (simp add: generateTerraformConfigFiles_def)







lemma generate_no_fault:
  assumes "data \<noteq> []" and "d \<noteq> []" and "mkdir_fault fs d = None"
    and "create_fault fs (path_Join [d, ''main.tf'']) = None"
    and "\<forall>k. write_fault fs (path_Join [d, ''main.tf'']) k = None"
    and "create_fault fs (path_Join [d, ''auth0_import.tf'']) = None"
    and "\<forall>k. write_fault fs (path_Join [d, ''auth0_import.tf'']) k = None"
  shows "generateTerraformConfigFiles d data fs =
    (None, putFile (path_Join [d, ''auth0_import.tf'']) (expectedImportFile data)
             (putFile (path_Join [d, ''main.tf'']) mainFileContent
                (snd (os_MkdirAll d readWritePermission fs))))"
proof -
  obtain r fs1 where mk: "os_MkdirAll d readWritePermission fs = (r, fs1)"
    by (cases "os_MkdirAll d readWritePermission fs")
  from mk assms(2,3) have r: "r = None"
    by (auto simp: os_MkdirAll_def split: if_splits)
  note fr = os_MkdirAll_frame[OF mk]
  from fr assms(4,5) have m: "createMainFile d fs1 =
      (None, putFile (path_Join [d, ''main.tf'']) mainFileContent fs1)"
    by (intro createMainFile_no_fault) simp_all
  from fr assms(6,7) have i: "createImportFile d data (putFile (path_Join [d, ''main.tf'']) mainFileContent fs1) =
      (None, putFile (path_Join [d, ''auth0_import.tf'']) (expectedImportFile data)
               (putFile (path_Join [d, ''main.tf'']) mainFileContent fs1))"
    by (intro createImportFile_no_fault) simp_all
  from generate_nonempty[OF assms(1) mk] r m i mk show ?thesis by simp
qed


lemma out_clean: "path_Clean ''out'' = ''out''" and out_tf_clean: "path_Clean ''out/tf'' = ''out/tf''"
  by (simp_all add: path_eval)


lemma diskWithOut_existing:
  "os_MkdirAll ''out'' readWritePermission (diskCreateFault name e) = (None, diskCreateFault name e)"
  "os_MkdirAll ''out'' readWritePermission (diskWriteFault name k e) = (None, diskWriteFault name k e)"
  by (simp_all add: os_MkdirAll_def out_clean diskCreateFault_def diskWriteFault_def diskWithOut_def)

section \<open>The aggregation of import data\<close>

text \<open>
  C3. If a fetcher of the list returns an error, \<^verbatim>\<open>fetchImportData\<close> returns that
  error with the empty list: the fetchers before the first failing one have all been
  called and have succeeded, their records are dropped, and so are the records the
  failing fetcher returned with its error. The fetchers after it are not called.
\<close>

theorem fetchImportData_fail_fast:
  assumes "\<exists>f\<in>set fetchers. snd (FetchData f ctx) \<noteq> None"
  shows "\<exists>pre f post data e.
           fetchers = pre @ f # post \<and>
           (\<forall>g\<in>set pre. snd (FetchData g ctx) = None) \<and>
           FetchData f ctx = (data, Some e) \<and>
           fetchImportData ctx fetchers = ([], Some e)"
proof -
  from assms obtain pre f post where split: "fetchers = pre @ f # post"
    and bad: "snd (FetchData f ctx) \<noteq> None"
    and good: "\<forall>g\<in>set pre. \<not> snd (FetchData g ctx) \<noteq> None"
    by (auto simp: split_list_first_prop_iff)
  from bad obtain data e where f: "FetchData f ctx = (data, Some e)"
    by (cases "FetchData f ctx") auto
  from good have ok: "\<forall>g\<in>set pre. snd (FetchData g ctx) = None" by simp
  from f have "snd (FetchData f ctx) = Some e" by simp
  from fetch_loop_err[OF ok this] split
  have "fetchImportData ctx fetchers = ([], Some e)"
    by (simp add: fetchImportData_def)
  with split ok f show ?thesis by blast
qed

theorem fetchImportData_fail_fast_witness:
  "(\<exists>f\<in>set [fetchOne, fetchFailing, fetchNothing]. snd (FetchData f ()) \<noteq> None) \<and>
   fetchImportData () [fetchOne, fetchFailing, fetchNothing] =
     ([], Some (APIError 429 ''Too Many Requests''))"
proof -
  have h: "\<exists>f\<in>set [fetchOne, fetchFailing, fetchNothing]. snd (FetchData f ()) \<noteq> None"
    by (simp add: FetchData_def fetchFailing_def)
  from fetchImportData_fail_fast[OF h] obtain e where
    "fetchImportData () [fetchOne, fetchFailing, fetchNothing] = ([], Some e)"
    by blast
  moreover have "snd (fetchImportData () [fetchOne, fetchFailing, fetchNothing]) =
      Some (APIError 429 ''Too Many Requests'')"
    by (simp add: fetchImportData_def FetchData_def fetchOne_def fetchFailing_def)
  ultimately show ?thesis using h by simp
qed

text \<open>
  C4. If every fetcher of the list succeeds, \<^verbatim>\<open>fetchImportData\<close> returns no error
  and the concatenation of the fetchers' records, fetcher after fetcher in the order
  of the list, each fetcher's records in the order it returned them. A fetcher with
  no record adds nothing and is no error.
\<close>

theorem fetchImportData_concat:
  assumes "\<forall>f\<in>set fetchers. snd (FetchData f ctx) = None"
  shows "fetchImportData ctx fetchers = (concat (map (\<lambda>f. fst (FetchData f ctx)) fetchers), None)"
  using fetch_loop_ok[OF assms, of "[]"] by (simp add: fetchImportData_def)

theorem fetchImportData_concat_witness:
  "snd (FetchData fetchOne ()) = None \<and> snd (FetchData fetchNothing ()) = None \<and>
   fst (FetchData fetchNothing ()) = [] \<and>
   fetchImportData () [fetchOne, fetchNothing, fetchOne] = ([scenarioItem, scenarioItem], None)"
proof -
  have h: "\<forall>f\<in>set [fetchOne, fetchNothing, fetchOne]. snd (FetchData f ()) = None"
    by (simp add: FetchData_def fetchOne_def fetchNothing_def)
  from fetchImportData_concat[OF h] h show ?thesis
    by (simp add: FetchData_def fetchOne_def fetchNothing_def)
qed

section \<open>The import file\<close>






section \<open>The generator\<close>

text \<open>
  C2. For the empty list \<^verbatim>\<open>generateTerraformConfigFiles\<close> returns the error
  \<open>no import data available\<close>, and no file is created or written: the files are
  what they were, so \<open>auth0_import.tf\<close> is not created.
\<close>

theorem generate_empty_error:
  "fst (generateTerraformConfigFiles outputDIR [] fs) = Some (errors_New ''no import data available'')
   \<and> files (snd (generateTerraformConfigFiles outputDIR [] fs)) = files fs"
  by (simp add: generateTerraformConfigFiles_def)

theorem generate_empty_error_witness:
  "fst (generateTerraformConfigFiles ''out'' [] emptyDisk) = Some (ErrorString ''no import data available'')
   \<and> files (snd (generateTerraformConfigFiles ''out'' [] emptyDisk)) ''out/auth0_import.tf'' = None"
  using generate_empty_error[of "''out''" emptyDisk]
  by (simp add: errors_New_def emptyDisk_no_fault)

text \<open>
  C10. For the empty list \<^verbatim>\<open>generateTerraformConfigFiles\<close> returns its error with
  the file system untouched: no directory is created and no file is created or
  written, \<open>main.tf\<close> included.
\<close>

theorem generate_empty_untouched:
  "generateTerraformConfigFiles outputDIR [] fs = (Some (ErrorString ''no import data available''), fs)"
  by (simp add: generateTerraformConfigFiles_def errors_New_def)

theorem generate_empty_untouched_witness:
  "snd (generateTerraformConfigFiles ''out'' [] emptyDisk) = emptyDisk \<and>
   dirs (snd (generateTerraformConfigFiles ''out'' [] emptyDisk)) ''out'' = None \<and>
   files (snd (generateTerraformConfigFiles ''out'' [] emptyDisk)) ''out/main.tf'' = None"
  using generate_empty_untouched[of "''out''" emptyDisk]
  by (simp add: emptyDisk_def)





text \<open>
  C8. For a list that is not empty, once the directory step has passed: the error of
  a failed \<^verbatim>\<open>os.Create\<close> or write of \<open>main.tf\<close>, and of a failed
  \<^verbatim>\<open>os.Create\<close> of \<open>auth0_import.tf\<close> or a failed execution of its template, is the
  error \<^verbatim>\<open>generateTerraformConfigFiles\<close> returns, unchanged. When the import file
  fails, \<open>main.tf\<close> is there with its full content: nothing is rolled back. The
  template's execution fails with a write error of the file only, and parsing the
  fixed template does not fail.
\<close>

theorem generate_file_errors:
  assumes "data \<noteq> []"
    and "os_MkdirAll d readWritePermission fs = (r, fs1)"
    and "r = None \<or> (\<exists>err. r = Some err \<and> os_IsExist err)"
  shows "(\<forall>e fs2. os_Create (path_Join [d, ''main.tf'']) fs1 = (Some e, fs2) \<longrightarrow>
            generateTerraformConfigFiles d data fs = (Some e, fs2))
       \<and> (\<forall>e fs2 fs3. os_Create (path_Join [d, ''main.tf'']) fs1 = (None, fs2) \<and>
              file_WriteString (path_Join [d, ''main.tf'']) mainFileContent fs2 = (Some e, fs3) \<longrightarrow>
            generateTerraformConfigFiles d data fs = (Some e, fs3))
       \<and> (\<forall>e fs2 fs3. createMainFile d fs1 = (None, fs2) \<and>
              os_Create (path_Join [d, ''auth0_import.tf'']) fs2 = (Some e, fs3) \<longrightarrow>
            generateTerraformConfigFiles d data fs = (Some e, fs3) \<and>
            files fs3 (path_Join [d, ''main.tf'']) = Some mainFileContent)
       \<and> (\<forall>e fs2 fs3 fs4. createMainFile d fs1 = (None, fs2) \<and>
              os_Create (path_Join [d, ''auth0_import.tf'']) fs2 = (None, fs3) \<and>
              template_Execute importTemplate (path_Join [d, ''auth0_import.tf'']) (dataVal data) fs3
                = (Some e, fs4) \<longrightarrow>
            generateTerraformConfigFiles d data fs = (Some e, fs4) \<and>
            (\<exists>n. e = PathError ''write'' (path_Join [d, ''auth0_import.tf'']) n) \<and>
            files fs4 (path_Join [d, ''main.tf'']) = Some mainFileContent)
       \<and> template_Parse importFileContent = Inr importTemplate"
proof -
  let ?m = "path_Join [d, ''main.tf'']" and ?i = "path_Join [d, ''auth0_import.tf'']"
  from assms(3) have pass: "\<not> (r \<noteq> None \<and> \<not> os_IsExist (the r))" by auto
  note gen = generate_nonempty[OF assms(1,2), simplified pass if_False]
  have 1: "generateTerraformConfigFiles d data fs = (Some e, fs2)"
    if "os_Create ?m fs1 = (Some e, fs2)" for e fs2
    using that gen by (simp add: createMainFile_def Let_def)
  have 2: "generateTerraformConfigFiles d data fs = (Some e, fs3)"
    if "os_Create ?m fs1 = (None, fs2)" "file_WriteString ?m mainFileContent fs2 = (Some e, fs3)"
    for e fs2 fs3
    using that gen by (simp add: createMainFile_def Let_def)
  have 3: "generateTerraformConfigFiles d data fs = (Some e, fs3) \<and> files fs3 ?m = Some mainFileContent"
    if "createMainFile d fs1 = (None, fs2)" "os_Create ?i fs2 = (Some e, fs3)" for e fs2 fs3
    using that gen createMainFile_ok[OF that(1)] os_Create_err[OF that(2)]
    by (simp add: createImportFile_def Let_def)
  have 4: "generateTerraformConfigFiles d data fs = (Some e, fs4) \<and>
           (\<exists>n. e = PathError ''write'' ?i n) \<and> files fs4 ?m = Some mainFileContent"
    if "createMainFile d fs1 = (None, fs2)" "os_Create ?i fs2 = (None, fs3)"
       "template_Execute importTemplate ?i (dataVal data) fs3 = (Some e, fs4)" for e fs2 fs3 fs4
  proof -
    from os_Create_ok[OF that(2)] have fs3: "fs3 = putFile ?i [] fs2" .
    then have "files fs3 ?i = Some []" by simp
    from template_Execute_import_err[OF that(3) this] obtain w n where
      fs4: "fs4 = putFile ?i w fs3" and e: "e = PathError ''write'' ?i n" by blast
    from fs4 fs3 createMainFile_ok[OF that(1)] paths_distinct[of d]
    have "files fs4 ?m = Some mainFileContent" by simp
    with that gen e show ?thesis
      by (simp add: createImportFile_def Let_def parse_importFileContent)
  qed
  from 1 2 3 4 parse_importFileContent show ?thesis by blast
qed

theorem generate_file_errors_witness:
  "generateTerraformConfigFiles ''out'' [scenarioItem] (diskCreateFault ''out/main.tf'' EACCES)
     = (Some (PathError ''open'' ''out/main.tf'' EACCES), diskCreateFault ''out/main.tf'' EACCES) \<and>
   generateTerraformConfigFiles ''out'' [scenarioItem] (diskWriteFault ''out/main.tf'' 0 ENOSPC)
     = (Some (PathError ''write'' ''out/main.tf'' ENOSPC),
        putFile ''out/main.tf'' [] (diskWriteFault ''out/main.tf'' 0 ENOSPC)) \<and>
   generateTerraformConfigFiles ''out'' [scenarioItem] (diskCreateFault ''out/auth0_import.tf'' ENOSPC)
     = (Some (PathError ''open'' ''out/auth0_import.tf'' ENOSPC),
        putFile ''out/main.tf'' mainFileContent (diskCreateFault ''out/auth0_import.tf'' ENOSPC)) \<and>
   fst (generateTerraformConfigFiles ''out'' [scenarioItem] (diskWriteFault ''out/auth0_import.tf'' 0 EIO))
     = Some (PathError ''write'' ''out/auth0_import.tf'' EIO) \<and>
   files (snd (generateTerraformConfigFiles ''out'' [scenarioItem]
       (diskWriteFault ''out/auth0_import.tf'' 0 EIO))) ''out/main.tf'' = Some mainFileContent"
proof -
  have ne: "[scenarioItem] \<noteq> []" by simp
  have pass: "None = None \<or> (\<exists>err. None = Some err \<and> os_IsExist err)" by simp
  let ?A = "diskCreateFault ''out/main.tf'' EACCES"
  have createA: "os_Create (path_Join [''out'', ''main.tf'']) ?A
      = (Some (PathError ''open'' ''out/main.tf'' EACCES), ?A)"
    by (simp add: out_main_path os_Create_def diskCreateFault_def)
  note A = generate_file_errors[OF ne diskWithOut_existing(1)[of "''out/main.tf''" EACCES] pass]
  from A[THEN conjunct1, rule_format, OF createA]
  have a: "generateTerraformConfigFiles ''out'' [scenarioItem] ?A
     = (Some (PathError ''open'' ''out/main.tf'' EACCES), ?A)" .
  let ?B = "diskWriteFault ''out/main.tf'' 0 ENOSPC"
  have createB: "os_Create (path_Join [''out'', ''main.tf'']) ?B = (None, putFile ''out/main.tf'' [] ?B)"
    by (simp add: out_main_path os_Create_def diskWriteFault_def diskWithOut_def emptyDisk_def)
  have writeB: "file_WriteString (path_Join [''out'', ''main.tf'']) mainFileContent
      (putFile ''out/main.tf'' [] ?B)
      = (Some (PathError ''write'' ''out/main.tf'' ENOSPC), putFile ''out/main.tf'' [] ?B)"
    by (simp add: out_main_path file_WriteString_def diskWriteFault_def)
  note B = generate_file_errors[OF ne diskWithOut_existing(2)[of "''out/main.tf''" 0 ENOSPC] pass]
  from B[THEN conjunct2, THEN conjunct1, rule_format, OF conjI[OF createB writeB]]
  have b: "generateTerraformConfigFiles ''out'' [scenarioItem] ?B
     = (Some (PathError ''write'' ''out/main.tf'' ENOSPC), putFile ''out/main.tf'' [] ?B)" .
  let ?C = "diskCreateFault ''out/auth0_import.tf'' ENOSPC"
  let ?C2 = "putFile ''out/main.tf'' mainFileContent ?C"
  have mainC: "createMainFile ''out'' ?C = (None, ?C2)"
    using createMainFile_no_fault[of ?C "''out''"]
    by (simp add: out_main_path diskCreateFault_def diskWithOut_def emptyDisk_def)
  have createC: "os_Create (path_Join [''out'', ''auth0_import.tf'']) ?C2
      = (Some (PathError ''open'' ''out/auth0_import.tf'' ENOSPC), ?C2)"
    by (simp add: out_import_path os_Create_def diskCreateFault_def)
  note C = generate_file_errors[OF ne diskWithOut_existing(1)[of "''out/auth0_import.tf''" ENOSPC] pass]
  from C[THEN conjunct2, THEN conjunct2, THEN conjunct1, rule_format, OF conjI[OF mainC createC]]
  have c: "generateTerraformConfigFiles ''out'' [scenarioItem] ?C
     = (Some (PathError ''open'' ''out/auth0_import.tf'' ENOSPC), ?C2)"
    by simp
  let ?D = "diskWriteFault ''out/auth0_import.tf'' 0 EIO"
  let ?D2 = "putFile ''out/main.tf'' mainFileContent ?D"
  let ?D3 = "putFile ''out/auth0_import.tf'' [] ?D2"
  have mainD: "createMainFile ''out'' ?D = (None, ?D2)"
    using createMainFile_no_fault[of ?D "''out''"]
    by (simp add: out_main_path diskWriteFault_def diskWithOut_def emptyDisk_def)
  have createD: "os_Create (path_Join [''out'', ''auth0_import.tf'']) ?D2 = (None, ?D3)"
    by (simp add: out_import_path os_Create_def diskWriteFault_def diskWithOut_def emptyDisk_def)
  have execD: "template_Execute importTemplate (path_Join [''out'', ''auth0_import.tf''])
       (dataVal [scenarioItem]) ?D3
     = (Some (PathError ''write'' ''out/auth0_import.tf'' EIO), ?D3)"
    by (simp add: out_import_path template_Execute_def importTemplate_def dataVal_def itemVal_def
        file_WriteString_def diskWriteFault_def)
  note D = generate_file_errors[OF ne diskWithOut_existing(2)[of "''out/auth0_import.tf''" 0 EIO] pass]
  from D[THEN conjunct2, THEN conjunct2, THEN conjunct2, THEN conjunct1, rule_format,
      OF conjI[OF mainD conjI[OF createD execD]]]
  have d: "fst (generateTerraformConfigFiles ''out'' [scenarioItem] ?D)
       = Some (PathError ''write'' ''out/auth0_import.tf'' EIO) \<and>
     files (snd (generateTerraformConfigFiles ''out'' [scenarioItem] ?D)) ''out/main.tf''
       = Some mainFileContent"
    by (simp add: out_main_path out_import_path)
  from a b c d show ?thesis by simp
qed

section \<open>The command\<close>

text \<open>
  C9. The command returns the error of the aggregation when that fails, with the
  generator not run (the file system and the renderer are as before); it returns the
  error of the generator when that fails; and when both succeed it returns no error
  after showing the confirmation and the quickstart message. It returns no error
  exactly when the aggregation and the generation both return none.
\<close>

theorem generate_cmd_run:
  "(\<forall>data e. fetchImportData ctx (parseResourceFetchers F inputs (api c)) = (data, Some e) \<longrightarrow>
       generateTerraformCmdRun F c inputs ctx fs = (Some e, c, fs))
   \<and> (\<forall>data e fs'. fetchImportData ctx (parseResourceFetchers F inputs (api c)) = (data, None) \<and>
         generateTerraformConfigFiles (OutputDIR inputs) data fs = (Some e, fs') \<longrightarrow>
       generateTerraformCmdRun F c inputs ctx fs = (Some e, c, fs'))
   \<and> (\<forall>data fs'. fetchImportData ctx (parseResourceFetchers F inputs (api c)) = (data, None) \<and>
         generateTerraformConfigFiles (OutputDIR inputs) data fs = (None, fs') \<longrightarrow>
       generateTerraformCmdRun F c inputs ctx fs =
         (None, c\<lparr>renderer := renderer c @ [successMessage, quickstartMessage]\<rparr>, fs'))
   \<and> ((fst (generateTerraformCmdRun F c inputs ctx fs) = None) =
        (snd (fetchImportData ctx (parseResourceFetchers F inputs (api c))) = None \<and>
         fst (generateTerraformConfigFiles (OutputDIR inputs)
                (fst (fetchImportData ctx (parseResourceFetchers F inputs (api c)))) fs) = None))"
  by (auto simp: generateTerraformCmdRun_def renderer_Infof_def split: prod.splits option.splits)

theorem generate_cmd_run_witness:
  "generateTerraformCmdRun (\<lambda>a. fetchFailing) exampleCli exampleInputs () emptyDisk
     = (Some (APIError 429 ''Too Many Requests''), exampleCli, emptyDisk) \<and>
   generateTerraformCmdRun (\<lambda>a. fetchNothing) exampleCli exampleInputs () emptyDisk
     = (Some (ErrorString ''no import data available''), exampleCli, emptyDisk) \<and>
   fst (generateTerraformCmdRun (\<lambda>a. fetchOne) exampleCli exampleInputs () emptyDisk) = None \<and>
   renderer (fst (snd (generateTerraformCmdRun (\<lambda>a. fetchOne) exampleCli exampleInputs () emptyDisk)))
     = [successMessage, quickstartMessage] \<and>
   files (snd (snd (generateTerraformCmdRun (\<lambda>a. fetchOne) exampleCli exampleInputs () emptyDisk)))
     ''out/auth0_import.tf'' = Some (expectedImportFile [scenarioItem])"
proof -
  have fetchA: "fetchImportData () (parseResourceFetchers (\<lambda>a. fetchFailing) exampleInputs (api exampleCli))
      = ([], Some (APIError 429 ''Too Many Requests''))"
    by (simp add: fetchImportData_def parseResourceFetchers_def FetchData_def fetchFailing_def)
  from generate_cmd_run[of "()" "\<lambda>a. fetchFailing" exampleInputs exampleCli emptyDisk,
      THEN conjunct1, rule_format, OF fetchA]
  have a: "generateTerraformCmdRun (\<lambda>a. fetchFailing) exampleCli exampleInputs () emptyDisk
     = (Some (APIError 429 ''Too Many Requests''), exampleCli, emptyDisk)" .
  have fetchB: "fetchImportData () (parseResourceFetchers (\<lambda>a. fetchNothing) exampleInputs (api exampleCli))
      = ([], None)"
    by (simp add: fetchImportData_def parseResourceFetchers_def FetchData_def fetchNothing_def)
  have genB: "generateTerraformConfigFiles (OutputDIR exampleInputs) [] emptyDisk
      = (Some (ErrorString ''no import data available''), emptyDisk)"
    by (simp add: generateTerraformConfigFiles_def errors_New_def)
  from generate_cmd_run[of "()" "\<lambda>a. fetchNothing" exampleInputs exampleCli emptyDisk,
      THEN conjunct2, THEN conjunct1, rule_format, OF conjI[OF fetchB genB]]
  have b: "generateTerraformCmdRun (\<lambda>a. fetchNothing) exampleCli exampleInputs () emptyDisk
     = (Some (ErrorString ''no import data available''), exampleCli, emptyDisk)" .
  have fetchC: "fetchImportData () (parseResourceFetchers (\<lambda>a. fetchOne) exampleInputs (api exampleCli))
      = ([scenarioItem], None)"
    by (simp add: fetchImportData_def parseResourceFetchers_def FetchData_def fetchOne_def)
  have genC: "generateTerraformConfigFiles (OutputDIR exampleInputs) [scenarioItem] emptyDisk
      = (None, putFile ''out/auth0_import.tf'' (expectedImportFile [scenarioItem])
             (putFile ''out/main.tf'' mainFileContent
                (snd (os_MkdirAll ''out'' readWritePermission emptyDisk))))"
    using generate_no_fault[of "[scenarioItem]" "''out''" emptyDisk]
    by (simp add: emptyDisk_no_fault exampleInputs_def out_main_path out_import_path)
  from generate_cmd_run[of "()" "\<lambda>a. fetchOne" exampleInputs exampleCli emptyDisk,
      THEN conjunct2, THEN conjunct2, THEN conjunct1, rule_format, OF conjI[OF fetchC genC]]
  have c: "fst (generateTerraformCmdRun (\<lambda>a. fetchOne) exampleCli exampleInputs () emptyDisk) = None \<and>
     renderer (fst (snd (generateTerraformCmdRun (\<lambda>a. fetchOne) exampleCli exampleInputs () emptyDisk)))
       = [successMessage, quickstartMessage] \<and>
     files (snd (snd (generateTerraformCmdRun (\<lambda>a. fetchOne) exampleCli exampleInputs () emptyDisk)))
       ''out/auth0_import.tf'' = Some (expectedImportFile [scenarioItem])"
    by (simp add: exampleCli_def)
  from a b c show ?thesis by simp
qed

end
